theory Spec2Isabelle
  imports Complex_Main "HOL-Library.Log_Nat"
begin

section \<open>JavaScript values\<close>

text \<open>
  The three visualizations are JavaScript. A number is an IEEE 754 binary64 value: a
  finite one is modelled by the real it denotes (the two zeros are one value, as they
  are for \<^verbatim>\<open>===\<close>), next to \<^verbatim>\<open>NaN\<close> and the two infinities.
  A value of a data point is \<^verbatim>\<open>undefined\<close>, \<^verbatim>\<open>null\<close>, a boolean,
  a number or a string. Reading a property can also yield a member that the object
  inherits from \<^verbatim>\<open>Object.prototype\<close>: \<open>Builtin k\<close> is the member of the name
  \<open>k\<close>, a function (for \<^verbatim>\<open>__proto__\<close> the prototype object itself).
\<close>

datatype jsnum = NaN | NegInf | Fin real | PosInf

datatype jsval = Undefined | Null | Bool bool | Num jsnum | Str string | Builtin string

text \<open>\<^verbatim>\<open>isNaN\<close> on a number.\<close>

fun isNaN :: "jsnum \<Rightarrow> bool" where
  "isNaN NaN = True"
| "isNaN _ = False"

text \<open>The relational operators \<^verbatim>\<open><\<close> and \<^verbatim>\<open>>\<close> on numbers: false as soon
  as an operand is \<^verbatim>\<open>NaN\<close>.\<close>

fun js_lt :: "jsnum \<Rightarrow> jsnum \<Rightarrow> bool" where
  "js_lt NaN _ = False"
| "js_lt _ NaN = False"
| "js_lt _ NegInf = False"
| "js_lt NegInf _ = True"
| "js_lt PosInf _ = False"
| "js_lt (Fin a) PosInf = True"
| "js_lt (Fin a) (Fin b) = (a < b)"

definition js_gt :: "jsnum \<Rightarrow> jsnum \<Rightarrow> bool" where
  "js_gt a b = js_lt b a"

text \<open>Truthiness (\<^verbatim>\<open>ToBoolean\<close>), as \<^verbatim>\<open>if (v)\<close> and \<^verbatim>\<open>a || b\<close> read a value.\<close>

fun truthy :: "jsval \<Rightarrow> bool" where
  "truthy Undefined = False"
| "truthy Null = False"
| "truthy (Bool b) = b"
| "truthy (Num NaN) = False"
| "truthy (Num (Fin r)) = (r \<noteq> 0)"
| "truthy (Num _) = True"
| "truthy (Str s) = (s \<noteq> [])"
| "truthy (Builtin k) = True"

definition js_or :: "jsval \<Rightarrow> jsval \<Rightarrow> jsval" where
  "js_or a b = (if truthy a then a else b)"

text \<open>\<^verbatim>\<open>v === null || v === undefined\<close>.\<close>

fun nullish :: "jsval \<Rightarrow> bool" where
  "nullish Undefined = True"
| "nullish Null = True"
| "nullish _ = False"

text \<open>
  \<^verbatim>\<open>ToNumber\<close>. The numeric value of a string is the language's
  \<^verbatim>\<open>StringToNumber\<close>, a parameter \<open>s2n\<close> of the model. A function or the
  prototype object converts to a string that is no numeral, hence to \<^verbatim>\<open>NaN\<close>.
\<close>

fun ToNumber :: "(string \<Rightarrow> jsnum) \<Rightarrow> jsval \<Rightarrow> jsnum" where
  "ToNumber s2n Undefined = NaN"
| "ToNumber s2n Null = Fin 0"
| "ToNumber s2n (Bool b) = (if b then Fin 1 else Fin 0)"
| "ToNumber s2n (Num n) = n"
| "ToNumber s2n (Str s) = s2n s"
| "ToNumber s2n (Builtin k) = NaN"

subsection \<open>Rounding to binary64\<close>

text \<open>
  \<open>ilog2 x\<close> is the exponent of the binade of \<open>x \<noteq> 0\<close>:
  \<open>2 ^ ilog2 x \<le> \<bar>x\<bar> < 2 ^ (ilog2 x + 1)\<close>.
\<close>

definition ilog2 :: "real \<Rightarrow> int" where
  "ilog2 x =
     (if 1 \<le> \<bar>x\<bar> then bitlen \<lfloor>\<bar>x\<bar>\<rfloor> - 1
      else - bitlen (\<lceil>1 / \<bar>x\<bar>\<rceil> - 1))"

text \<open>Round to the nearest integer, a tie to the even one.\<close>

definition round_even :: "real \<Rightarrow> int" where
  "round_even z =
     (let f = \<lfloor>z\<rfloor>; d = z - of_int f
      in if d < 1 / 2 then f
         else if 1 / 2 < d then f + 1
         else if even f then f else f + 1)"

text \<open>
  The spacing of the binary64 values around \<open>x\<close>: 53 significant bits, and the
  subnormal spacing \<open>2 ^ -1074\<close> below \<open>2 ^ -1022\<close>.
\<close>

definition quantum :: "real \<Rightarrow> real" where
  "quantum x = 2 powi (max (ilog2 x) (- 1022) - 52)"

text \<open>The binary64 value of a real result: round to nearest, ties to even; a result
  that rounds to \<open>2 ^ 1024\<close> or beyond is an infinity.\<close>

definition round64 :: "real \<Rightarrow> jsnum" where
  "round64 x =
     (if x = 0 then Fin 0
      else let r = of_int (round_even (x / quantum x)) * quantum x
           in if 2 ^ 1024 \<le> r then PosInf
              else if r \<le> - (2 ^ 1024) then NegInf
              else Fin r)"

text \<open>The operators \<^verbatim>\<open>*\<close> and \<^verbatim>\<open>-\<close> on numbers.\<close>

fun js_mul :: "jsnum \<Rightarrow> jsnum \<Rightarrow> jsnum" where
  "js_mul NaN _ = NaN"
| "js_mul _ NaN = NaN"
| "js_mul (Fin a) (Fin b) = round64 (a * b)"
| "js_mul (Fin a) PosInf = (if a = 0 then NaN else if 0 < a then PosInf else NegInf)"
| "js_mul (Fin a) NegInf = (if a = 0 then NaN else if 0 < a then NegInf else PosInf)"
| "js_mul PosInf (Fin b) = (if b = 0 then NaN else if 0 < b then PosInf else NegInf)"
| "js_mul NegInf (Fin b) = (if b = 0 then NaN else if 0 < b then NegInf else PosInf)"
| "js_mul PosInf PosInf = PosInf"
| "js_mul NegInf NegInf = PosInf"
| "js_mul PosInf NegInf = NegInf"
| "js_mul NegInf PosInf = NegInf"

fun js_sub :: "jsnum \<Rightarrow> jsnum \<Rightarrow> jsnum" where
  "js_sub NaN _ = NaN"
| "js_sub _ NaN = NaN"
| "js_sub (Fin a) (Fin b) = round64 (a - b)"
| "js_sub (Fin a) PosInf = NegInf"
| "js_sub (Fin a) NegInf = PosInf"
| "js_sub PosInf (Fin b) = PosInf"
| "js_sub NegInf (Fin b) = NegInf"
| "js_sub PosInf PosInf = NaN"
| "js_sub NegInf NegInf = NaN"
| "js_sub PosInf NegInf = PosInf"
| "js_sub NegInf PosInf = NegInf"

fun js_add :: "jsnum \<Rightarrow> jsnum \<Rightarrow> jsnum" where
  "js_add NaN _ = NaN"
| "js_add _ NaN = NaN"
| "js_add (Fin a) (Fin b) = round64 (a + b)"
| "js_add (Fin a) PosInf = PosInf"
| "js_add (Fin a) NegInf = NegInf"
| "js_add PosInf (Fin b) = PosInf"
| "js_add NegInf (Fin b) = NegInf"
| "js_add PosInf PosInf = PosInf"
| "js_add NegInf NegInf = NegInf"
| "js_add PosInf NegInf = NaN"
| "js_add NegInf PosInf = NaN"

section \<open>Result rows\<close>

text \<open>
  An object is the list of its own properties in the order \<^verbatim>\<open>Object.keys\<close>
  lists them. The objects of a result and the objects the transformations build with
  \<^verbatim>\<open>{}\<close> have the prototype \<^verbatim>\<open>Object.prototype\<close>, whose property names
  every one of them inherits.
\<close>

type_synonym obj = "(string \<times> jsval) list"

definition Object_prototype_names :: "string list" where
  "Object_prototype_names =
     [''constructor'', ''__defineGetter__'', ''__defineSetter__'', ''hasOwnProperty'',
      ''__lookupGetter__'', ''__lookupSetter__'', ''isPrototypeOf'',
      ''propertyIsEnumerable'', ''toString'', ''valueOf'', ''__proto__'',
      ''toLocaleString'']"

definition inherited :: "string \<Rightarrow> bool" where
  "inherited k = (k \<in> set Object_prototype_names)"

text \<open>
  \<^verbatim>\<open>ob[k]\<close> and \<^verbatim>\<open>ob.k\<close>: the own property of that name, else the member
  inherited under that name, else \<^verbatim>\<open>undefined\<close>.
\<close>

definition obj_get :: "obj \<Rightarrow> string \<Rightarrow> jsval" where
  "obj_get ob k =
     (case map_of ob k of
        Some v \<Rightarrow> v
      | None \<Rightarrow> if inherited k then Builtin k else Undefined)"

text \<open>An entry of \<^verbatim>\<open>metadata.groups\<close>.\<close>

record group =
  type :: string
  val :: string
  displayName :: string

record metadata =
  color :: jsval
  name :: jsval
  groups :: "group list"
  units_data :: obj

record row =
  data :: "obj list"
  metadata :: metadata

datatype js_error = TypeError

section \<open>The grouping classifier\<close>

text \<open>A JavaScript \<^verbatim>\<open>Set\<close> is the list of its members in insertion order;
  its \<^verbatim>\<open>size\<close> is the length of the list and \<^verbatim>\<open>Array.from\<close> is the
  list.\<close>

definition set_add :: "'a list \<Rightarrow> 'a \<Rightarrow> 'a list" where
  "set_add s a = (if a \<in> set s then s else s @ [a])"

definition new_Set :: "'a list \<Rightarrow> 'a list" where
  "new_Set xs = foldl set_add [] xs"

text \<open>
  Modelled from the spec: the groups of one type in the \<^verbatim>\<open>metadata.groups\<close> of all
  rows, in the order in which a scan of the rows meets them; the scan is part of
  \<^verbatim>\<open>getUniqueAggregatesAndFacets\<close>, which is not among the sources.
\<close>

definition groupsOfType :: "string \<Rightarrow> row list \<Rightarrow> group list" where
  "groupsOfType t rawData =
     concat (map (\<lambda>r. filter (\<lambda>g. type g = t) (groups (metadata r))) rawData)"

text \<open>
  Modelled from the spec: \<^verbatim>\<open>getUniqueAggregatesAndFacets\<close> of
  \<^verbatim>\<open>src/utils/nrql-validation-helper\<close> is not among the sources. The spec (4.1):
  it scans every row's \<^verbatim>\<open>metadata.groups\<close> and yields the aggregate identities,
  one per distinct function-typed group, and the facet identities, one per
  distinct facet-typed group. The result is the pair
  \<open>(uniqueAggregates, uniqueFacets)\<close>. The identity of a group is its
  \<^verbatim>\<open>displayName\<close>: the scatter plot looks the aggregates up by that name.
\<close>

definition getUniqueAggregatesAndFacets :: "row list \<Rightarrow> string list \<times> string list" where
  "getUniqueAggregatesAndFacets rawData =
     (new_Set (map displayName (groupsOfType ''function'' rawData)),
      new_Set (map displayName (groupsOfType ''facet'' rawData)))"

text \<open>
  Modelled from the spec: \<^verbatim>\<open>getUniqueNonAggregates\<close> of the same absent file. The
  spec (4.1): it scans the rows' data point keys and yields the non-aggregate
  identities, one per distinct attribute key present in the data points.
\<close>

definition getUniqueNonAggregates :: "row list \<Rightarrow> string list" where
  "getUniqueNonAggregates rawData =
     new_Set (concat (map (\<lambda>r. concat (map (map fst) (data r))) rawData))"

section \<open>The circular progress bar (gauge)\<close>

record thresholds =
  criticalThreshold :: jsval
  highValuesAreSuccess :: jsval

text \<open>\<^verbatim>\<open>Colors.base\<close>, of the absent \<^verbatim>\<open>src/colors\<close>: the two colours the gauge
  reads are parameters.\<close>

record base_colors =
  red6 :: jsval
  green6 :: jsval

text \<open>
  \<^verbatim>\<open>getColor\<close>. \<open>parseFloat\<close> is the language's function, a parameter: it yields
  \<^verbatim>\<open>NaN\<close> for what does not start with a number.
\<close>

definition getColor ::
  "(jsval \<Rightarrow> jsnum) \<Rightarrow> base_colors \<Rightarrow> thresholds \<Rightarrow> jsnum \<Rightarrow> jsval \<Rightarrow> jsval" where
  "getColor parseFloat base props value colorFromData =
     (let red = red6 base; green = green6 base;
          threshold = parseFloat (criticalThreshold props)
      in if isNaN threshold then colorFromData
         else if truthy (highValuesAreSuccess props)
           then (if js_gt value threshold then green else red)
           else (if js_lt value threshold then green else red))"

text \<open>A slice of the pie: \<^verbatim>\<open>{ x, y, color }\<close>.\<close>

record datum =
  x :: string
  y :: jsval
  color :: jsval

record gauge =
  percent :: jsnum
  label :: jsval
  series :: "datum list"

text \<open>
  \<^verbatim>\<open>transformData\<close> of the gauge. Destructuring \<^verbatim>\<open>data[0]\<close> of an empty
  result, and reading \<^verbatim>\<open>series.y\<close> when the first row has no data point, throw a
  \<^verbatim>\<open>TypeError\<close>.
\<close>

definition gauge_transformData ::
  "(string \<Rightarrow> jsnum) \<Rightarrow> (jsval \<Rightarrow> jsnum) \<Rightarrow> base_colors \<Rightarrow> thresholds \<Rightarrow>
     row list \<Rightarrow> js_error + gauge" where
  "gauge_transformData s2n parseFloat base props rawData =
     (case rawData of
        [] \<Rightarrow> Inl TypeError
      | row0 # _ \<Rightarrow>
          (case data row0 of
             [] \<Rightarrow> Inl TypeError
           | series0 # _ \<Rightarrow>
               (let colorFromData = metadata.color (metadata row0);
                    label0 = name (metadata row0);
                    percent0 = js_mul (ToNumber s2n (obj_get series0 ''y'')) (Fin 100);
                    color0 = getColor parseFloat base props percent0 colorFromData
                in Inr \<lparr> percent = percent0, label = label0,
                     series =
                       [\<lparr> x = ''progress'', y = Num percent0, color = color0 \<rparr>,
                        \<lparr> x = ''remainder'', y = Num (js_sub (Fin 100) percent0),
                          color = Str ''transparent'' \<rparr>] \<rparr>)))"

text \<open>\<^verbatim>\<open>nrqlInputIsValid\<close> of the gauge; \<^verbatim>\<open>data[0]\<close> of an empty result
  throws.\<close>

definition gauge_nrqlInputIsValid :: "row list \<Rightarrow> js_error + bool" where
  "gauge_nrqlInputIsValid rawData =
     (case rawData of
        [] \<Rightarrow> Inl TypeError
      | row0 # _ \<Rightarrow>
          (let seriesEntries = data row0;
               (uniqueAggregates0, uniqueFacets0) = getUniqueAggregatesAndFacets rawData;
               isNonTimeseries = (length seriesEntries = 1)
           in Inr (length uniqueAggregates0 = 1 \<and> length uniqueFacets0 = 0 \<and> isNonTimeseries)))"

section \<open>Objects built by the transformations\<close>

text \<open>\<^verbatim>\<open>ob[k] = v\<close>: an own property keeps its place, a new one goes last.\<close>

fun obj_set :: "(string \<times> 'v) list \<Rightarrow> string \<Rightarrow> 'v \<Rightarrow> (string \<times> 'v) list" where
  "obj_set [] k v = [(k, v)]"
| "obj_set ((k', v') # ob) k v =
     (if k' = k then (k, v) # ob else (k', v') # obj_set ob k v)"

text \<open>
  The order in which \<^verbatim>\<open>Object.entries\<close> lists the own properties of an object
  built key by key: the keys that are array indices (a canonical decimal numeral
  below \<open>2 ^ 32 - 1\<close>) first, in ascending numeric order, then the other keys in
  the order of their creation.
\<close>

definition is_digit :: "char \<Rightarrow> bool" where
  "is_digit c = ((48 :: nat) \<le> of_char c \<and> of_char c \<le> (57 :: nat))"

definition decimal :: "string \<Rightarrow> nat" where
  "decimal s = foldl (\<lambda>a c. 10 * a + (of_char c - 48)) 0 s"

definition array_index :: "string \<Rightarrow> nat option" where
  "array_index s =
     (if s \<noteq> [] \<and> list_all is_digit s \<and> (s = ''0'' \<or> hd s \<noteq> CHR ''0'')
         \<and> length s \<le> 10 \<and> int (decimal s) < 4294967295
      then Some (decimal s) else None)"

definition index_key :: "string \<times> 'v \<Rightarrow> nat" where
  "index_key kv = (case array_index (fst kv) of Some n \<Rightarrow> n | None \<Rightarrow> 0)"

definition Object_entries :: "(string \<times> 'v) list \<Rightarrow> (string \<times> 'v) list" where
  "Object_entries ob =
     sort_key index_key (filter (\<lambda>kv. array_index (fst kv) \<noteq> None) ob)
       @ filter (\<lambda>kv. array_index (fst kv) = None) ob"

text \<open>\<^verbatim>\<open>Array.prototype.join\<close> on strings.\<close>

fun join :: "string \<Rightarrow> string list \<Rightarrow> string" where
  "join sep [] = []"
| "join sep [s] = s"
| "join sep (s # t # ss) = s @ sep @ join sep (t # ss)"

text \<open>
  Modelled from the spec: \<^verbatim>\<open>getFacetLabel\<close> of \<^verbatim>\<open>src/utils/facets\<close> is not
  among the sources. The spec (4.3): the facet label of a row is the comma-joined
  values of its facet groups.
\<close>

definition getFacetLabel :: "group list \<Rightarrow> string" where
  "getFacetLabel gs = join '','' (map val (filter (\<lambda>g. type g = ''facet'') gs))"

text \<open>A loop that a \<^verbatim>\<open>TypeError\<close> leaves: \<^verbatim>\<open>reduce\<close> with a callback that may
  throw.\<close>

fun reduce :: "('a \<Rightarrow> 'b \<Rightarrow> js_error + 'a) \<Rightarrow> 'b list \<Rightarrow> 'a \<Rightarrow> js_error + 'a" where
  "reduce f [] acc = Inr acc"
| "reduce f (cur # remaining) acc =
     (case f acc cur of Inl e \<Rightarrow> Inl e | Inr acc' \<Rightarrow> reduce f remaining acc')"

section \<open>The stacked bar chart\<close>

text \<open>
  \<^verbatim>\<open>getFacetLabels\<close>: the pair \<open>(barLabel, segmentLabel)\<close>. Without a facet
  group, \<^verbatim>\<open>facetGroups[facetGroups.length - 1]\<close> is \<^verbatim>\<open>undefined\<close> and reading
  its \<^verbatim>\<open>value\<close> throws.
\<close>

definition getFacetLabels :: "group list \<Rightarrow> js_error + (string \<times> string)" where
  "getFacetLabels gs =
     (let facetGroups = filter (\<lambda>g. type g = ''facet'') gs
      in if facetGroups = [] then Inl TypeError
         else Inr (getFacetLabel (butlast facetGroups), val (last facetGroups)))"

text \<open>
  The callback of the \<^verbatim>\<open>reduce\<close> in \<^verbatim>\<open>transformData\<close>. Its state is the
  \<^verbatim>\<open>Map\<close> \<open>colorsBySegmentLabel\<close> and the accumulator \<open>acc\<close>, the two-level object
  from segment label to bar label to value. \<open>visible\<close> is \<^verbatim>\<open>other.visible\<close>.

  The test \<^verbatim>\<open>if (acc[segmentLabel])\<close> reads through the prototype of \<open>acc\<close>: it
  holds for an own property, whose value is an inner object, and also for a segment
  label that is a name inherited from \<^verbatim>\<open>Object.prototype\<close>. In the second case
  \<^verbatim>\<open>acc[segmentLabel][barLabel] = data[0].y\<close> writes a property of the inherited
  member and \<open>acc\<close> gets no key: the row leaves no trace in the accumulator. (The
  inherited member is an object shared by the whole program; it is not part of the
  state of the model.)

  The assignment \<^verbatim>\<open>acc[segmentLabel][barLabel] = data[0].y\<close> to an inner object
  updates the own property \<open>barLabel\<close> or creates it, but for the name
  \<^verbatim>\<open>__proto__\<close>: when that is not an own property and the object has its
  prototype, the assignment calls the accessor inherited from
  \<^verbatim>\<open>Object.prototype\<close>, which creates no property and, for the value
  \<^verbatim>\<open>null\<close>, removes the prototype of the object. The third component \<open>bare\<close>
  of the state lists the segment labels of the inner objects that lost their
  prototype. (The object literal \<^verbatim>\<open>{ [barLabel]: ... }\<close> creates an own property
  for every name.)
\<close>

definition facetBreakdown_step ::
  "bool \<Rightarrow> (string \<rightharpoonup> jsval) \<times> (string \<times> obj) list \<times> string list \<Rightarrow> row \<Rightarrow>
     js_error + (string \<rightharpoonup> jsval) \<times> (string \<times> obj) list \<times> string list" where
  "facetBreakdown_step visible st cur =
     (let (colorsBySegmentLabel, acc, bare) = st
      in case getFacetLabels (groups (metadata cur)) of
           Inl e \<Rightarrow> Inl e
         | Inr (barLabel, segmentLabel) \<Rightarrow>
             if \<not> visible \<and> barLabel = ''Other'' then Inr (colorsBySegmentLabel, acc, bare)
             else
               (let colors' =
                      (if colorsBySegmentLabel segmentLabel = None
                       then colorsBySegmentLabel(segmentLabel \<mapsto> metadata.color (metadata cur))
                       else colorsBySegmentLabel)
                in case data cur of
                     [] \<Rightarrow> Inl TypeError
                   | point0 # _ \<Rightarrow>
                       (case map_of acc segmentLabel of
                          Some entry \<Rightarrow>
                            if barLabel = ''__proto__'' \<and> map_of entry barLabel = None \<and>
                               segmentLabel \<notin> set bare
                            then Inr (colors', acc,
                                   if obj_get point0 ''y'' = Null then bare @ [segmentLabel]
                                   else bare)
                            else
                              Inr (colors',
                                obj_set acc segmentLabel
                                  (obj_set entry barLabel (obj_get point0 ''y'')),
                                bare)
                        | None \<Rightarrow>
                            if inherited segmentLabel then Inr (colors', acc, bare)
                            else
                              Inr (colors',
                                obj_set acc segmentLabel [(barLabel, obj_get point0 ''y'')],
                                bare))))"

text \<open>A bar segment: \<^verbatim>\<open>{ label, segmentLabel, x, y, color }\<close>.\<close>

record barSegment = datum +
  label :: "string list"
  segmentLabel :: string

text \<open>
  \<^verbatim>\<open>transformData\<close> of the stacked bar chart. \<open>toLocaleString\<close> is the language's
  method and \<open>typeToUnit\<close> the unit table of the absent \<^verbatim>\<open>src/utils/units\<close>, both
  parameters; they only shape the tooltip text. \<^verbatim>\<open>rawData[0]\<close> of an empty result
  throws.
\<close>

definition value_text :: "(jsval \<Rightarrow> string) \<Rightarrow> jsval \<Rightarrow> string" where
  "value_text toLocaleString v = (if nullish v then [] else toLocaleString v)"

definition stacked_transformData ::
  "(jsval \<Rightarrow> string) \<Rightarrow> (jsval \<Rightarrow> string) \<Rightarrow> bool \<Rightarrow> row list \<Rightarrow>
     js_error + barSegment list list" where
  "stacked_transformData toLocaleString typeToUnit visible rawData =
     (case reduce (facetBreakdown_step visible) rawData (Map.empty, [], []) of
        Inl e \<Rightarrow> Inl e
      | Inr (colorsBySegmentLabel, facetBreakdown, bare) \<Rightarrow>
          (case rawData of
             [] \<Rightarrow> Inl TypeError
           | row0 # _ \<Rightarrow>
               (let unitType = obj_get (units_data (metadata row0)) ''y''
                in Inr (map (\<lambda>(segmentLabel0, entry).
                          map (\<lambda>(barLabel, v).
                                 \<lparr> x = barLabel, y = v,
                                   color = (case colorsBySegmentLabel segmentLabel0 of
                                              None \<Rightarrow> Undefined | Some c \<Rightarrow> c),
                                   label = [segmentLabel0,
                                            value_text toLocaleString v @ typeToUnit unitType],
                                   segmentLabel = segmentLabel0 \<rparr>)
                              (Object_entries entry))
                        (Object_entries facetBreakdown)))))"


section \<open>The scatter plot\<close>

text \<open>\<^verbatim>\<open>Math.min\<close> and \<^verbatim>\<open>Math.max\<close>: every argument goes through
  \<^verbatim>\<open>ToNumber\<close>, a \<^verbatim>\<open>NaN\<close> among them is the result, and no argument gives
  \<^verbatim>\<open>Infinity\<close> and \<^verbatim>\<open>-Infinity\<close>.\<close>

fun js_min2 :: "jsnum \<Rightarrow> jsnum \<Rightarrow> jsnum" where
  "js_min2 NaN _ = NaN"
| "js_min2 _ NaN = NaN"
| "js_min2 a b = (if js_lt b a then b else a)"

fun js_max2 :: "jsnum \<Rightarrow> jsnum \<Rightarrow> jsnum" where
  "js_max2 NaN _ = NaN"
| "js_max2 _ NaN = NaN"
| "js_max2 a b = (if js_lt a b then b else a)"

definition Math_min :: "(string \<Rightarrow> jsnum) \<Rightarrow> jsval list \<Rightarrow> jsnum" where
  "Math_min s2n vs = foldl js_min2 PosInf (map (ToNumber s2n) vs)"

definition Math_max :: "(string \<Rightarrow> jsnum) \<Rightarrow> jsval list \<Rightarrow> jsnum" where
  "Math_max s2n vs = foldl js_max2 NegInf (map (ToNumber s2n) vs)"

text \<open>\<^verbatim>\<open>Array.prototype.indexOf\<close>; \<open>None\<close> is \<^verbatim>\<open>-1\<close>.\<close>

fun indexOf :: "'a list \<Rightarrow> 'a \<Rightarrow> nat option" where
  "indexOf [] a = None"
| "indexOf (b # bs) a = (if b = a then Some 0 else map_option Suc (indexOf bs a))"

text \<open>\<^verbatim>\<open>entryHasNulls\<close>.\<close>

definition entryHasNulls :: "obj \<Rightarrow> bool \<Rightarrow> bool" where
  "entryHasNulls entry queryHasZField =
     (let axisValues = [obj_get entry ''x'', obj_get entry ''y''];
          axisValues' = (if queryHasZField then axisValues @ [obj_get entry ''z''] else axisValues)
      in list_ex nullish axisValues')"

record range =
  xMin :: jsval
  xMax :: jsval
  yMin :: jsval
  yMax :: jsval

text \<open>What both modes return: \<^verbatim>\<open>{ series, range }\<close>.\<close>

record scatter =
  series :: "obj list"
  range' :: range

text \<open>
  The constants of the callback of the \<^verbatim>\<open>reduce\<close> in \<^verbatim>\<open>getAggregatesData\<close>:
  \<open>dataValue\<close> is \<^verbatim>\<open>data?.[0]?.y\<close>, \<open>aggregateFunction\<close> the first function-typed
  group of the row, and \<open>functionPosition\<close> the index of its display name among
  \<open>functionDisplayNames\<close> (\<open>None\<close> for \<^verbatim>\<open>-1\<close>, also when the row has no
  function-typed group: the display name is \<^verbatim>\<open>undefined\<close> then).
\<close>

definition dataValue :: "row \<Rightarrow> jsval" where
  "dataValue cur = (case data cur of [] \<Rightarrow> Undefined | point0 # _ \<Rightarrow> obj_get point0 ''y'')"

definition aggregateFunction :: "row \<Rightarrow> group option" where
  "aggregateFunction cur =
     (case filter (\<lambda>g. type g = ''function'') (groups (metadata cur)) of
        [] \<Rightarrow> None | g # _ \<Rightarrow> Some g)"

definition functionPosition :: "string list \<Rightarrow> row \<Rightarrow> nat option" where
  "functionPosition functionDisplayNames cur =
     (case aggregateFunction cur of
        None \<Rightarrow> None
      | Some g \<Rightarrow> indexOf functionDisplayNames (displayName g))"

text \<open>
  The callback itself: the accumulator maps a facet group name to the object of
  that group. \<open>showOther\<close> is \<^verbatim>\<open>other.visible\<close>.

  The test \<^verbatim>\<open>facetGroupName in acc\<close> holds for an own property and for a name
  inherited from \<^verbatim>\<open>Object.prototype\<close>. For an inherited name no object is
  created, \<^verbatim>\<open>acc[facetGroupName]\<close> is the inherited member, the assignments of
  the \<^verbatim>\<open>switch\<close> write properties of that member, and \<open>acc\<close> gets no key. (The
  inherited member is an object shared by the whole program; it is not part of the
  state of the model.)
\<close>

definition facetGroupData_step ::
  "bool \<Rightarrow> string list \<Rightarrow> (string \<times> obj) list \<Rightarrow> row \<Rightarrow> (string \<times> obj) list" where
  "facetGroupData_step showOther functionDisplayNames acc cur =
     (let facetGroupName = getFacetLabel (groups (metadata cur))
      in if \<not> showOther \<and> facetGroupName = ''Other'' then acc
         else
           (let unitType = obj_get (units_data (metadata cur)) ''y'';
                functionDisplayName =
                  (case aggregateFunction cur of None \<Rightarrow> Undefined
                   | Some g \<Rightarrow> Str (displayName g));
                acc1 = (if map_of acc facetGroupName = None \<and> \<not> inherited facetGroupName
                        then obj_set acc facetGroupName [] else acc)
            in case map_of acc1 facetGroupName of
                 None \<Rightarrow> acc1
               | Some entry \<Rightarrow>
                   if functionPosition functionDisplayNames cur = Some 0 then
                     obj_set acc1 facetGroupName
                       (obj_set (obj_set (obj_set (obj_set entry
                          ''color'' (metadata.color (metadata cur)))
                          ''x'' (dataValue cur))
                          ''xUnitType'' unitType)
                          ''xDisplayName'' functionDisplayName)
                   else if functionPosition functionDisplayNames cur = Some 1 then
                     obj_set acc1 facetGroupName
                       (obj_set (obj_set (obj_set entry
                          ''y'' (dataValue cur))
                          ''yUnitType'' unitType)
                          ''yDisplayName'' functionDisplayName)
                   else if functionPosition functionDisplayNames cur = Some 2 then
                     obj_set acc1 facetGroupName
                       (obj_set (obj_set (obj_set entry
                          ''z'' (dataValue cur))
                          ''zUnitType'' unitType)
                          ''zDisplayName'' functionDisplayName)
                   else acc1))"

text \<open>\<^verbatim>\<open>getAggregatesData\<close>.\<close>

definition getAggregatesData ::
  "(string \<Rightarrow> jsnum) \<Rightarrow> bool \<Rightarrow> row list \<Rightarrow> string list \<Rightarrow> scatter" where
  "getAggregatesData s2n showOther rawData functionDisplayNames =
     (let queryHasZField = (length functionDisplayNames > 2);
          facetGroupData = foldl (facetGroupData_step showOther functionDisplayNames) [] rawData;
          series0 = map (\<lambda>(facetGroupName, facetGroupData0).
                           (''facetGroupName'', Str facetGroupName) # facetGroupData0)
                      (Object_entries facetGroupData);
          seriesWithoutNulls = filter (\<lambda>entry. \<not> entryHasNulls entry queryHasZField) series0;
          xValues = map (\<lambda>entry. obj_get entry ''x'') seriesWithoutNulls;
          yValues = map (\<lambda>entry. obj_get entry ''y'') seriesWithoutNulls
      in \<lparr> series = seriesWithoutNulls,
           range' = \<lparr> xMin = Num (Math_min s2n xValues), xMax = Num (Math_max s2n xValues),
                      yMin = Num (Math_min s2n yValues), yMax = Num (Math_max s2n yValues) \<rparr> \<rparr>)"

text \<open>
  \<^verbatim>\<open>attributeNames[i]\<close> is \<^verbatim>\<open>undefined\<close> past the end of the array; as a
  property key \<^verbatim>\<open>undefined\<close> is the string \<^verbatim>\<open>"undefined"\<close>.
  \<^verbatim>\<open>point[name]\<close> and \<^verbatim>\<open>units_data[name]\<close> read through the prototype: for
  an attribute that a point lacks and whose name is inherited from
  \<^verbatim>\<open>Object.prototype\<close>, the value is the inherited member.
\<close>

definition at_index :: "string list \<Rightarrow> nat \<Rightarrow> string option" where
  "at_index xs i = (if i < length xs then Some (xs ! i) else None)"

definition name_value :: "string option \<Rightarrow> jsval" where
  "name_value k = (case k of None \<Rightarrow> Undefined | Some s \<Rightarrow> Str s)"

definition get_prop :: "obj \<Rightarrow> string option \<Rightarrow> jsval" where
  "get_prop ob k = obj_get ob (case k of None \<Rightarrow> ''undefined'' | Some s \<Rightarrow> s)"

text \<open>An array \<^verbatim>\<open>map\<close> whose callback also assigns variables of the enclosing
  function: the variables are a state threaded through the calls.\<close>

fun map_state :: "('s \<Rightarrow> 'a \<Rightarrow> 'b \<times> 's) \<Rightarrow> 'a list \<Rightarrow> 's \<Rightarrow> 'b list \<times> 's" where
  "map_state f [] s = ([], s)"
| "map_state f (a # as) s =
     (let (b, s') = f s a; (bs, s'') = map_state f as s' in (b # bs, s''))"

text \<open>
  The callback of \<^verbatim>\<open>data.map\<close> in \<^verbatim>\<open>getNonAggregatesData\<close> does two things.
  It builds the datapoint of a point: \<open>x\<close>, \<open>y\<close>, the display names, the unit
  types and the colour, and \<open>z\<close> with its display name and unit type when the
  value of the third attribute is truthy.
\<close>

definition datapoint_of ::
  "string option \<Rightarrow> string option \<Rightarrow> string option \<Rightarrow>
     jsval \<Rightarrow> jsval \<Rightarrow> jsval \<Rightarrow> jsval \<Rightarrow> obj \<Rightarrow> obj" where
  "datapoint_of xAttributeName yAttributeName zAttributeName
       xUnitType yUnitType zUnitType color0 point =
     (let x0 = get_prop point xAttributeName;
          y0 = get_prop point yAttributeName;
          datapoint =
            [(''x'', x0), (''y'', y0),
             (''xDisplayName'', name_value xAttributeName),
             (''yDisplayName'', name_value yAttributeName),
             (''xUnitType'', xUnitType), (''yUnitType'', yUnitType),
             (''color'', color0)]
      in if truthy (get_prop point zAttributeName)
         then datapoint @
                [(''z'', get_prop point zAttributeName),
                 (''zDisplayName'', name_value zAttributeName),
                 (''zUnitType'', zUnitType)]
         else datapoint)"

text \<open>
  And it assigns \<open>xMin\<close>, \<open>xMax\<close>, \<open>yMin\<close>, \<open>yMax\<close>, variables of the enclosing
  function that start \<^verbatim>\<open>undefined\<close>:
  \<^verbatim>\<open>xMin = Math.min(xMin || x, x)\<close> and so on.
\<close>

definition range_update ::
  "(string \<Rightarrow> jsnum) \<Rightarrow> string option \<Rightarrow> string option \<Rightarrow> range \<Rightarrow> obj \<Rightarrow> range" where
  "range_update s2n xAttributeName yAttributeName r point =
     (let x0 = get_prop point xAttributeName;
          y0 = get_prop point yAttributeName
      in \<lparr> xMin = Num (js_min2 (ToNumber s2n (js_or (xMin r) x0)) (ToNumber s2n x0)),
           xMax = Num (js_max2 (ToNumber s2n (js_or (xMax r) x0)) (ToNumber s2n x0)),
           yMin = Num (js_min2 (ToNumber s2n (js_or (yMin r) y0)) (ToNumber s2n y0)),
           yMax = Num (js_max2 (ToNumber s2n (js_or (yMax r) y0)) (ToNumber s2n y0)) \<rparr>)"

definition datapoint_step ::
  "(string \<Rightarrow> jsnum) \<Rightarrow> string option \<Rightarrow> string option \<Rightarrow> string option \<Rightarrow>
     jsval \<Rightarrow> jsval \<Rightarrow> jsval \<Rightarrow> jsval \<Rightarrow> range \<Rightarrow> obj \<Rightarrow> obj \<times> range" where
  "datapoint_step s2n xAttributeName yAttributeName zAttributeName
       xUnitType yUnitType zUnitType color0 r point =
     (datapoint_of xAttributeName yAttributeName zAttributeName
        xUnitType yUnitType zUnitType color0 point,
      range_update s2n xAttributeName yAttributeName r point)"

text \<open>\<^verbatim>\<open>getNonAggregatesData\<close>; \<^verbatim>\<open>rawData[0]\<close> of an empty result throws.\<close>

definition getNonAggregatesData :: "(string \<Rightarrow> jsnum) \<Rightarrow> row list \<Rightarrow> js_error + scatter" where
  "getNonAggregatesData s2n rawData =
     (let uniqueNonAggregates = getUniqueNonAggregates rawData;
          queryHasZField = (length uniqueNonAggregates > 2);
          attributeNames = uniqueNonAggregates;
          xAttributeName = at_index attributeNames 0;
          yAttributeName = at_index attributeNames 1;
          zAttributeName = at_index attributeNames 2
      in case rawData of
           [] \<Rightarrow> Inl TypeError
         | row0 # _ \<Rightarrow>
             (let xUnitType = get_prop (units_data (metadata row0)) xAttributeName;
                  yUnitType = get_prop (units_data (metadata row0)) yAttributeName;
                  zUnitType = get_prop (units_data (metadata row0)) zAttributeName;
                  color0 = metadata.color (metadata row0);
                  (series0, r) =
                    map_state
                      (datapoint_step s2n xAttributeName yAttributeName zAttributeName
                         xUnitType yUnitType zUnitType color0)
                      (data row0)
                      \<lparr> xMin = Undefined, xMax = Undefined, yMin = Undefined, yMax = Undefined \<rparr>;
                  seriesWithoutNulls =
                    filter (\<lambda>entry. \<not> entryHasNulls entry queryHasZField) series0
              in Inr \<lparr> series = seriesWithoutNulls, range' = r \<rparr>))"

text \<open>\<^verbatim>\<open>transformData\<close> of the scatter plot; \<open>None\<close> is \<^verbatim>\<open>null\<close>.\<close>

definition scatter_transformData ::
  "(string \<Rightarrow> jsnum) \<Rightarrow> bool \<Rightarrow> row list \<Rightarrow> js_error + scatter option" where
  "scatter_transformData s2n showOther rawData =
     (let uniqueNonAggregates = getUniqueNonAggregates rawData
      in if length uniqueNonAggregates > 1
         then (case getNonAggregatesData s2n rawData of
                 Inl e \<Rightarrow> Inl e | Inr res \<Rightarrow> Inr (Some res))
         else
           (let uniqueAggregates = fst (getUniqueAggregatesAndFacets rawData)
            in if length uniqueAggregates > 1
               then Inr (Some (getAggregatesData s2n showOther rawData uniqueAggregates))
               else Inr None))"

text \<open>\<^verbatim>\<open>nrqlInputIsValid\<close> of the scatter plot.\<close>

definition scatter_nrqlInputIsValid :: "row list \<Rightarrow> bool" where
  "scatter_nrqlInputIsValid rawData =
     (let uniqueAggregates = fst (getUniqueAggregatesAndFacets rawData);
          uniqueNonAggregates = getUniqueNonAggregates rawData
      in length uniqueAggregates \<ge> 2 \<or> length uniqueNonAggregates \<ge> 2)"

section \<open>Example inputs\<close>

text \<open>The builtin \<^verbatim>\<open>parseFloat\<close> restricted to the values the examples use: a number
  is its own value, anything else here does not start with a number.\<close>

definition parseFloat_ex :: "jsval \<Rightarrow> jsnum" where
  "parseFloat_ex v = (case v of Num n \<Rightarrow> n | _ \<Rightarrow> NaN)"

definition colors_ex :: base_colors where
  "colors_ex = \<lparr> red6 = Str ''red'', green6 = Str ''green'' \<rparr>"

definition mk_row :: "group list \<Rightarrow> obj list \<Rightarrow> row" where
  "mk_row gs points =
     \<lparr> data = points,
       metadata = \<lparr> metadata.color = Str ''#11A'', name = Str ''series'', groups = gs,
                    units_data = [] \<rparr> \<rparr>"

definition fn_group :: "string \<Rightarrow> group" where
  "fn_group n = \<lparr> type = ''function'', val = n, displayName = n \<rparr>"

definition facet_group :: "string \<Rightarrow> string \<Rightarrow> group" where
  "facet_group n v = \<lparr> type = ''facet'', val = v, displayName = n \<rparr>"

text \<open>A result of two rows for the same aggregate (as a query that compares two
  time windows gives), the second with two data points.\<close>

definition gauge_two_rows :: "row list" where
  "gauge_two_rows =
     [mk_row [fn_group ''count''] [[(''y'', Num (Fin (1 / 2)))]],
      mk_row [fn_group ''count''] [[(''y'', Num (Fin (1 / 4)))], [(''y'', Num (Fin (3 / 4)))]]]"

definition gauge_one_row :: "row list" where
  "gauge_one_row = [mk_row [fn_group ''percentage''] [[(''y'', Num (Fin (1 / 2)))]]]"

text \<open>The builtin \<^verbatim>\<open>StringToNumber\<close> restricted to strings that are not numerals.\<close>

definition s2n_ex :: "string \<Rightarrow> jsnum" where
  "s2n_ex s = NaN"

text \<open>The stacked bar example of the spec: facets \<open>region\<close> and \<open>host\<close>, one
  aggregate, a row per pair of facet values.\<close>

definition stacked_example :: "row list" where
  "stacked_example =
     [mk_row [fn_group ''avg(duration)'', facet_group ''region'' ''us'', facet_group ''host'' ''a'']
        [[(''y'', Num (Fin 5))]],
      mk_row [fn_group ''avg(duration)'', facet_group ''region'' ''us'', facet_group ''host'' ''b'']
        [[(''y'', Num (Fin 7))]]]"

text \<open>Rows that have two aggregates and two keys in their data points.\<close>

definition scatter_both :: "row list" where
  "scatter_both =
     [mk_row [fn_group ''count''] [[(''x'', Num (Fin 1)), (''y'', Num (Fin 2))]],
      mk_row [fn_group ''average''] [[(''x'', Num (Fin 1)), (''y'', Num (Fin 3))]]]"

text \<open>Two aggregates of one facet group.\<close>

definition scatter_aggregates :: "row list" where
  "scatter_aggregates =
     [mk_row [fn_group ''count'', facet_group ''host'' ''a''] [[(''y'', Num (Fin 2))]],
      mk_row [fn_group ''average'', facet_group ''host'' ''a''] [[(''y'', Num (Fin 3))]]]"

text \<open>The non-aggregate example of the spec: one row, two data points, the second with a
  \<^verbatim>\<open>null\<close> second attribute.\<close>

definition scatter_example :: "row list" where
  "scatter_example =
     [mk_row []
        [[(''duration'', Num (Fin 1)), (''externalDuration'', Num (Fin (1 / 5)))],
         [(''duration'', Num (Fin 2)), (''externalDuration'', Null)]]]"


text \<open>Two complete points, the first with \<open>x = 0\<close>.\<close>

definition scatter_zero :: "row list" where
  "scatter_zero =
     [mk_row []
        [[(''a'', Num (Fin 0)), (''b'', Num (Fin 1))],
         [(''a'', Num (Fin 5)), (''b'', Num (Fin 2))]]]"





section \<open>Notions for the proofs about the stacked bar chart\<close>









section \<open>Notions for the proofs about the aggregate mode of the scatter plot\<close>





text \<open>An attribute named \<open>constructor\<close>, which the second point lacks.\<close>

definition scatter_inherited :: "row list" where
  "scatter_inherited =
     [mk_row []
        [[(''a'', Num (Fin 1)), (''b'', Num (Fin 2)), (''constructor'', Num (Fin 3))],
         [(''a'', Num (Fin 4)), (''b'', Num (Fin 5))]]]"

section \<open>Facts about sets\<close>

lemma set_add_set: "set (set_add s a) = insert a (set s)"
  by (auto simp: set_add_def)

lemma set_add_distinct: "distinct s \<Longrightarrow> distinct (set_add s a)"
  by (simp add: set_add_def)

lemma foldl_set_add_set: "set (foldl set_add s xs) = set s \<union> set xs"
  by (induction xs arbitrary: s) (simp_all add: set_add_set)

lemma foldl_set_add_distinct: "distinct s \<Longrightarrow> distinct (foldl set_add s xs)"
  by (induction xs arbitrary: s) (simp_all add: set_add_distinct)

lemma new_Set_set: "set (new_Set xs) = set xs"
  by (simp add: new_Set_def foldl_set_add_set)

lemma new_Set_distinct: "distinct (new_Set xs)"
  by (simp add: new_Set_def foldl_set_add_distinct)

lemma new_Set_size: "length (new_Set xs) = card (set xs)"
  using distinct_card [OF new_Set_distinct, of xs] by (simp add: new_Set_set)

lemma new_Set_empty_iff: "length (new_Set xs) = 0 \<longleftrightarrow> xs = []"
  by (simp add: new_Set_size)

lemma groupsOfType_set:
  "set (groupsOfType t rawData) =
     {g. \<exists>r \<in> set rawData. g \<in> set (groups (metadata r)) \<and> type g = t}"
  by (auto simp: groupsOfType_def)

lemma new_Set_Nil_iff: "new_Set xs = [] \<longleftrightarrow> xs = []"
  using new_Set_set [of xs] by (metis set_empty)

lemma groupsOfType_Nil_iff:
  "groupsOfType t rawData = [] \<longleftrightarrow>
     (\<forall>r \<in> set rawData. \<forall>g \<in> set (groups (metadata r)). type g \<noteq> t)"
  by (auto simp: groupsOfType_def filter_empty_conv)

section \<open>Facts about property reads\<close>

lemmas obj_get_eval = obj_get_def inherited_def Object_prototype_names_def

lemma obj_get_own: "map_of ob k = Some v \<Longrightarrow> obj_get ob k = v"
  by (simp add: obj_get_def)

lemma obj_get_missing:
  "map_of ob k = None \<Longrightarrow> obj_get ob k = (if inherited k then Builtin k else Undefined)"
  by (simp add: obj_get_def)


lemma inherited_constructor: "inherited ''constructor''" "inherited ''toString''"
  by (simp_all add: inherited_def Object_prototype_names_def)

section \<open>The gauge\<close>

text \<open>
  C1. The threshold colouring of the gauge. With \<open>t\<close> the parsed
  \<^verbatim>\<open>criticalThreshold\<close>: when \<open>t\<close> is \<^verbatim>\<open>NaN\<close>, \<^verbatim>\<open>getColor\<close> returns the colour
  of the data unchanged; otherwise, when \<^verbatim>\<open>highValuesAreSuccess\<close> holds it returns
  the success colour (green) exactly when \<open>percent > t\<close> and the critical
  colour (red) otherwise, and when it does not hold it returns the success colour
  exactly when \<open>percent < t\<close> and the critical colour otherwise. The
  comparisons are strict: a percent equal to the threshold is critical in both
  modes.
\<close>

theorem getColor_threshold_rule:
  "(isNaN (parseFloat (criticalThreshold props)) \<longrightarrow>
      getColor parseFloat base props percent0 colorFromData = colorFromData) \<and>
   (\<not> isNaN (parseFloat (criticalThreshold props)) \<and> truthy (highValuesAreSuccess props) \<longrightarrow>
      getColor parseFloat base props percent0 colorFromData =
        (if js_gt percent0 (parseFloat (criticalThreshold props))
         then green6 base else red6 base)) \<and>
   (\<not> isNaN (parseFloat (criticalThreshold props)) \<and> \<not> truthy (highValuesAreSuccess props) \<longrightarrow>
      getColor parseFloat base props percent0 colorFromData =
        (if js_lt percent0 (parseFloat (criticalThreshold props))
         then green6 base else red6 base)) \<and>
   (\<not> isNaN (parseFloat (criticalThreshold props)) \<and>
      percent0 = parseFloat (criticalThreshold props) \<longrightarrow>
      getColor parseFloat base props percent0 colorFromData = red6 base)"
proof -
  have irrefl: "\<not> js_lt n n" for n
    by (cases n) simp_all
  show ?thesis
    by (auto simp: getColor_def Let_def js_gt_def irrefl)
qed

theorem getColor_threshold_rule_witness:
  "getColor parseFloat_ex colors_ex
     \<lparr> criticalThreshold = Num (Fin 50), highValuesAreSuccess = Bool True \<rparr>
     (Fin 60) (Str ''#11A'') = Str ''green'' \<and>
   getColor parseFloat_ex colors_ex
     \<lparr> criticalThreshold = Num (Fin 50), highValuesAreSuccess = Bool False \<rparr>
     (Fin 60) (Str ''#11A'') = Str ''red'' \<and>
   getColor parseFloat_ex colors_ex
     \<lparr> criticalThreshold = Str ''not-a-number'', highValuesAreSuccess = Bool True \<rparr>
     (Fin 60) (Str ''#11A'') = Str ''#11A'' \<and>
   getColor parseFloat_ex colors_ex
     \<lparr> criticalThreshold = Num (Fin 50), highValuesAreSuccess = Bool True \<rparr>
     (Fin 50) (Str ''#11A'') = Str ''red''"
  using
    getColor_threshold_rule [of parseFloat_ex
      "\<lparr> criticalThreshold = Num (Fin 50), highValuesAreSuccess = Bool True \<rparr>"
      colors_ex "Fin 60" "Str ''#11A''"]
    getColor_threshold_rule [of parseFloat_ex
      "\<lparr> criticalThreshold = Num (Fin 50), highValuesAreSuccess = Bool False \<rparr>"
      colors_ex "Fin 60" "Str ''#11A''"]
    getColor_threshold_rule [of parseFloat_ex
      "\<lparr> criticalThreshold = Str ''not-a-number'', highValuesAreSuccess = Bool True \<rparr>"
      colors_ex "Fin 60" "Str ''#11A''"]
    getColor_threshold_rule [of parseFloat_ex
      "\<lparr> criticalThreshold = Num (Fin 50), highValuesAreSuccess = Bool True \<rparr>"
      colors_ex "Fin 50" "Str ''#11A''"]
  by (simp add: parseFloat_ex_def colors_ex_def js_gt_def)

text \<open>
  C8, as the code has it. The validator of the gauge reads the data points of the
  first row only: on a result that is not empty it accepts exactly when the
  function-typed groups of all rows bear one name, no row has a facet-typed group,
  and the first row has exactly one data point. (On an empty result
  \<^verbatim>\<open>data[0]\<close> throws.)
\<close>

theorem gauge_nrqlInputIsValid_first_row:
  "gauge_nrqlInputIsValid (row0 # rows) =
     Inr (card (displayName ` set (groupsOfType ''function'' (row0 # rows))) = 1 \<and>
          (\<forall>r \<in> set (row0 # rows). \<forall>g \<in> set (groups (metadata r)). type g \<noteq> ''facet'') \<and>
          length (data row0) = 1)"
  unfolding gauge_nrqlInputIsValid_def getUniqueAggregatesAndFacets_def Let_def
    groupsOfType_Nil_iff [of "''facet''" "row0 # rows", symmetric]
  by (simp add: new_Set_size new_Set_Nil_iff del: list.set)

theorem gauge_nrqlInputIsValid_first_row_witness:
  "gauge_nrqlInputIsValid gauge_one_row = Inr True"
  using gauge_nrqlInputIsValid_first_row [of "hd gauge_one_row" "tl gauge_one_row"]
  by (simp add: gauge_one_row_def mk_row_def fn_group_def groupsOfType_def)

text \<open>
  C8 as stated fails: a result whose second row has two data points is accepted,
  since only the first row is looked at.
\<close>

theorem gauge_nrqlInputIsValid_counterexample:
  "gauge_nrqlInputIsValid gauge_two_rows = Inr True \<and>
   length (data (gauge_two_rows ! 1)) = 2"
  by (simp add: gauge_two_rows_def gauge_nrqlInputIsValid_def getUniqueAggregatesAndFacets_def
      groupsOfType_def mk_row_def fn_group_def new_Set_def set_add_def)

section \<open>The scatter plot: mode selection\<close>

text \<open>
  C2. \<^verbatim>\<open>transformData\<close> of the scatter plot uses the non-aggregate mode whenever
  more than one unique non-aggregate attribute exists, whatever the number of
  aggregates; it uses the aggregate mode only when there is at most one
  non-aggregate attribute and more than one unique aggregate; and when neither
  holds it returns \<^verbatim>\<open>null\<close>, which it does in no other case: that is exactly
  when \<^verbatim>\<open>nrqlInputIsValid\<close> rejects.
\<close>

theorem scatter_mode_selection:
  "(1 < length (getUniqueNonAggregates d) \<longrightarrow>
      scatter_transformData s2n showOther d = map_sum id Some (getNonAggregatesData s2n d)) \<and>
   (length (getUniqueNonAggregates d) \<le> 1 \<and> 1 < length (fst (getUniqueAggregatesAndFacets d)) \<longrightarrow>
      scatter_transformData s2n showOther d =
        Inr (Some (getAggregatesData s2n showOther d (fst (getUniqueAggregatesAndFacets d))))) \<and>
   (length (getUniqueNonAggregates d) \<le> 1 \<and> length (fst (getUniqueAggregatesAndFacets d)) \<le> 1 \<longrightarrow>
      scatter_transformData s2n showOther d = Inr None) \<and>
   (scatter_transformData s2n showOther d = Inr None \<longleftrightarrow>
      length (getUniqueNonAggregates d) \<le> 1 \<and> length (fst (getUniqueAggregatesAndFacets d)) \<le> 1) \<and>
   (scatter_transformData s2n showOther d = Inr None \<longleftrightarrow> \<not> scatter_nrqlInputIsValid d)"
  by (cases "getNonAggregatesData s2n d")
     (auto simp: scatter_transformData_def scatter_nrqlInputIsValid_def Let_def)

lemma scatter_both_sizes:
  "getUniqueNonAggregates scatter_both = [''x'', ''y'']"
  "fst (getUniqueAggregatesAndFacets scatter_both) = [''count'', ''average'']"
  by (simp_all add: scatter_both_def getUniqueNonAggregates_def getUniqueAggregatesAndFacets_def
      groupsOfType_def mk_row_def fn_group_def new_Set_def set_add_def)

lemma scatter_aggregates_sizes:
  "getUniqueNonAggregates scatter_aggregates = [''y'']"
  "fst (getUniqueAggregatesAndFacets scatter_aggregates) = [''count'', ''average'']"
  by (simp_all add: scatter_aggregates_def getUniqueNonAggregates_def getUniqueAggregatesAndFacets_def
      groupsOfType_def mk_row_def fn_group_def facet_group_def new_Set_def set_add_def)

lemma gauge_one_row_sizes:
  "getUniqueNonAggregates gauge_one_row = [''y'']"
  "fst (getUniqueAggregatesAndFacets gauge_one_row) = [''percentage'']"
  by (simp_all add: gauge_one_row_def getUniqueNonAggregates_def getUniqueAggregatesAndFacets_def
      groupsOfType_def mk_row_def fn_group_def facet_group_def new_Set_def set_add_def)

theorem scatter_mode_selection_witness:
  "scatter_transformData s2n_ex True scatter_both =
     map_sum id Some (getNonAggregatesData s2n_ex scatter_both) \<and>
   scatter_transformData s2n_ex True scatter_aggregates =
     Inr (Some (getAggregatesData s2n_ex True scatter_aggregates [''count'', ''average''])) \<and>
   scatter_transformData s2n_ex True gauge_one_row = Inr None \<and>
   \<not> scatter_nrqlInputIsValid gauge_one_row"
  using scatter_mode_selection [of scatter_both s2n_ex True]
    scatter_mode_selection [of scatter_aggregates s2n_ex True]
    scatter_mode_selection [of gauge_one_row s2n_ex True]
  by (auto simp: scatter_both_sizes scatter_aggregates_sizes gauge_one_row_sizes)

section \<open>The stacked bar chart: the example of the spec\<close>

lemma array_index_letters:
  "array_index ''a'' = None" "array_index ''b'' = None" "array_index ''us'' = None"
  by (simp_all add: array_index_def is_digit_def)

lemma Object_entries_no_index:
  "\<forall>kv \<in> set ob. array_index (fst kv) = None \<Longrightarrow> Object_entries ob = ob"
  by (simp add: Object_entries_def)

lemma filter_butlast_same: "filter P (butlast (filter P xs)) = butlast (filter P xs)"
  by (rule filter_True) (auto dest: in_set_butlastD)

lemma getFacetLabels_all_but_last:
  "filter (\<lambda>g. type g = ''facet'') gs \<noteq> [] \<Longrightarrow>
   getFacetLabels gs =
     Inr (join '','' (map val (butlast (filter (\<lambda>g. type g = ''facet'') gs))),
          val (last (filter (\<lambda>g. type g = ''facet'') gs)))"
  by (simp add: getFacetLabels_def getFacetLabel_def Let_def filter_butlast_same)

lemma stacked_example_reduce:
  "reduce (facetBreakdown_step visible) stacked_example (Map.empty, [], []) =
     Inr ([''a'' \<mapsto> Str ''#11A'', ''b'' \<mapsto> Str ''#11A''],
          [(''a'', [(''us'', Num (Fin 5))]), (''b'', [(''us'', Num (Fin 7))])], [])"
  by (simp add: stacked_example_def facetBreakdown_step_def
      getFacetLabels_def getFacetLabel_def mk_row_def fn_group_def facet_group_def
      obj_get_eval)

lemma stacked_example_out:
  "stacked_transformData toLocaleString typeToUnit visible stacked_example =
     Inr [[\<lparr> x = ''us'', y = Num (Fin 5), color = Str ''#11A'',
             label = [''a'', toLocaleString (Num (Fin 5)) @ typeToUnit Undefined],
             segmentLabel = ''a'' \<rparr>],
          [\<lparr> x = ''us'', y = Num (Fin 7), color = Str ''#11A'',
             label = [''b'', toLocaleString (Num (Fin 7)) @ typeToUnit Undefined],
             segmentLabel = ''b'' \<rparr>]]"
  unfolding stacked_transformData_def stacked_example_reduce
  by (simp add: stacked_example_def mk_row_def
      obj_get_eval value_text_def Object_entries_no_index array_index_letters)

text \<open>
  C3, as the code has it. \<^verbatim>\<open>getFacetLabels\<close> derives \<open>barLabel\<close> as the
  comma-joined values of all facet groups but the last and \<open>segmentLabel\<close> as the
  value of the last facet group. On the two rows of the example, whose last facet
  (\<open>host\<close>) has the values \<open>a\<close> and \<open>b\<close>, \<^verbatim>\<open>transformData\<close> therefore yields two
  segment groups, one per value of the last facet, each with one bar entry keyed by
  the region \<open>us\<close>: the first with value 5, the second with value 7.
\<close>

theorem stacked_example_two_segments:
  "(filter (\<lambda>g. type g = ''facet'') gs \<noteq> [] \<longrightarrow>
      getFacetLabels gs =
        Inr (join '','' (map val (butlast (filter (\<lambda>g. type g = ''facet'') gs))),
             val (last (filter (\<lambda>g. type g = ''facet'') gs)))) \<and>
   map_sum id (map (map (\<lambda>e. (segmentLabel e, x e, y e))))
     (stacked_transformData toLocaleString typeToUnit visible stacked_example) =
     Inr [[(''a'', ''us'', Num (Fin 5))], [(''b'', ''us'', Num (Fin 7))]]"
  by (simp add: getFacetLabels_all_but_last stacked_example_out)

theorem stacked_example_two_segments_witness:
  "getFacetLabels (groups (metadata (hd stacked_example))) = Inr (''us'', ''a'') \<and>
   map_sum id (map (map (\<lambda>e. (segmentLabel e, x e, y e))))
     (stacked_transformData (\<lambda>v. ''5'') (\<lambda>u. []) True stacked_example) =
     Inr [[(''a'', ''us'', Num (Fin 5))], [(''b'', ''us'', Num (Fin 7))]]"
  using stacked_example_two_segments
    [of "groups (metadata (hd stacked_example))" "\<lambda>v. ''5''" "\<lambda>u. []" True]
  by (simp add: stacked_example_def mk_row_def fn_group_def facet_group_def)

text \<open>
  C3 as stated fails: the output for the example is not one segment group with
  two bar entries but two segment groups with one bar entry each.
\<close>

theorem stacked_example_counterexample:
  "map_sum id (map length)
     (stacked_transformData (\<lambda>v. []) (\<lambda>u. []) True stacked_example) = Inr [1, 1]"
  by (simp add: stacked_example_out)

section \<open>The scatter plot: the non-aggregate mode\<close>

lemma map_state_pair:
  "map_state (\<lambda>s a. (f a, g s a)) as s = (map f as, foldl g s as)"
  by (induction as arbitrary: s) simp_all

lemma getNonAggregatesData_Cons:
  "getNonAggregatesData s2n (row0 # rows) =
     Inr \<lparr> series =
             filter (\<lambda>entry. \<not> entryHasNulls entry (2 < length (getUniqueNonAggregates (row0 # rows))))
               (map (datapoint_of
                       (at_index (getUniqueNonAggregates (row0 # rows)) 0)
                       (at_index (getUniqueNonAggregates (row0 # rows)) 1)
                       (at_index (getUniqueNonAggregates (row0 # rows)) 2)
                       (get_prop (units_data (metadata row0)) (at_index (getUniqueNonAggregates (row0 # rows)) 0))
                       (get_prop (units_data (metadata row0)) (at_index (getUniqueNonAggregates (row0 # rows)) 1))
                       (get_prop (units_data (metadata row0)) (at_index (getUniqueNonAggregates (row0 # rows)) 2))
                       (metadata.color (metadata row0)))
                  (data row0)),
           range' =
             foldl (range_update s2n
                      (at_index (getUniqueNonAggregates (row0 # rows)) 0)
                      (at_index (getUniqueNonAggregates (row0 # rows)) 1))
               \<lparr> xMin = Undefined, xMax = Undefined, yMin = Undefined, yMax = Undefined \<rparr>
               (data row0) \<rparr>"
  unfolding getNonAggregatesData_def Let_def datapoint_step_def [abs_def] map_state_pair
  by simp







lemma scatter_example_names:
  "getUniqueNonAggregates scatter_example = [''duration'', ''externalDuration'']"
  by (simp add: scatter_example_def getUniqueNonAggregates_def mk_row_def new_Set_def set_add_def)


lemma scatter_zero_names: "getUniqueNonAggregates scatter_zero = [''a'', ''b'']"
  by (simp add: scatter_zero_def getUniqueNonAggregates_def mk_row_def new_Set_def set_add_def)

lemma nonaggregate_single_row:
  assumes "getUniqueNonAggregates [mk_row gs points] = names"
  shows "getNonAggregatesData s2n [mk_row gs points] =
     Inr \<lparr> series =
             filter (\<lambda>entry. \<not> entryHasNulls entry (2 < length names))
               (map (datapoint_of (at_index names 0) (at_index names 1) (at_index names 2)
                       (get_prop [] (at_index names 0)) (get_prop [] (at_index names 1))
                       (get_prop [] (at_index names 2)) (Str ''#11A''))
                  points),
           range' =
             foldl (range_update s2n (at_index names 0) (at_index names 1))
               \<lparr> xMin = Undefined, xMax = Undefined, yMin = Undefined, yMax = Undefined \<rparr>
               points \<rparr>"
proof -
  have "data (mk_row gs points) = points"
    "metadata.color (metadata (mk_row gs points)) = Str ''#11A''"
    "units_data (metadata (mk_row gs points)) = []"
    by (simp_all add: mk_row_def)
  then show ?thesis
    by (simp only: getNonAggregatesData_Cons assms)
qed

lemmas nonaggregate_eval =
  at_index_def datapoint_of_def get_prop_def obj_get_eval entryHasNulls_def name_value_def
  Let_def range_update_def js_or_def

lemma scatter_example_result:
  "getNonAggregatesData s2n scatter_example =
     Inr \<lparr> series =
             [[(''x'', Num (Fin 1)), (''y'', Num (Fin (1 / 5))),
               (''xDisplayName'', Str ''duration''), (''yDisplayName'', Str ''externalDuration''),
               (''xUnitType'', Undefined), (''yUnitType'', Undefined),
               (''color'', Str ''#11A'')]],
           range' = \<lparr> xMin = Num (Fin 1), xMax = Num (Fin 2),
                      yMin = Num (Fin 0), yMax = Num (Fin (1 / 5)) \<rparr> \<rparr>"
  unfolding scatter_example_def
  by (subst nonaggregate_single_row [OF scatter_example_names [unfolded scatter_example_def]])
     (simp add: nonaggregate_eval)


lemma scatter_zero_result:
  "getNonAggregatesData s2n scatter_zero =
     Inr \<lparr> series =
             [[(''x'', Num (Fin 0)), (''y'', Num (Fin 1)),
               (''xDisplayName'', Str ''a''), (''yDisplayName'', Str ''b''),
               (''xUnitType'', Undefined), (''yUnitType'', Undefined),
               (''color'', Str ''#11A'')],
              [(''x'', Num (Fin 5)), (''y'', Num (Fin 2)),
               (''xDisplayName'', Str ''a''), (''yDisplayName'', Str ''b''),
               (''xUnitType'', Undefined), (''yUnitType'', Undefined),
               (''color'', Str ''#11A'')]],
           range' = \<lparr> xMin = Num (Fin 5), xMax = Num (Fin 5),
                      yMin = Num (Fin 1), yMax = Num (Fin 2) \<rparr> \<rparr>"
  unfolding scatter_zero_def
  by (subst nonaggregate_single_row [OF scatter_zero_names [unfolded scatter_zero_def]])
     (simp add: nonaggregate_eval)


lemma scatter_inherited_names:
  "getUniqueNonAggregates scatter_inherited = [''a'', ''b'', ''constructor'']"
  by (simp add: scatter_inherited_def getUniqueNonAggregates_def mk_row_def new_Set_def
      set_add_def)

text \<open>
  A point that lacks an attribute whose name is inherited from
  \<^verbatim>\<open>Object.prototype\<close> reads the inherited member, which is truthy: of the two
  points \<^verbatim>\<open>{a: 1, b: 2, constructor: 3}\<close> and \<^verbatim>\<open>{a: 4, b: 5}\<close> both are
  retained, the second with the inherited function as its \<open>z\<close>.
\<close>

lemma nonaggregate_inherited_attribute:
  "map_sum id (\<lambda>res. map (\<lambda>e. (obj_get e ''x'', obj_get e ''y'', obj_get e ''z'')) (series res))
     (getNonAggregatesData s2n scatter_inherited) =
     Inr [(Num (Fin 1), Num (Fin 2), Num (Fin 3)),
          (Num (Fin 4), Num (Fin 5), Builtin ''constructor'')]"
  unfolding scatter_inherited_def
  by (subst nonaggregate_single_row [OF scatter_inherited_names [unfolded scatter_inherited_def]])
     (simp add: nonaggregate_eval)




text \<open>
  C5 on the non-aggregate mode. The range is accumulated over all points while the
  series is built, before the incomplete points are filtered out, and with
  \<^verbatim>\<open>xMin || x\<close>, which forgets a minimum of 0. On the example of the spec the
  only retained point is \<open>(1, 0.2)\<close>, yet \<open>xMax\<close> is 2, the \<open>x\<close> of the dropped
  point, and \<open>yMin\<close> is 0, its \<^verbatim>\<open>null\<close>. On two complete points with \<open>x\<close> 0 and 5
  the minimum is 5.
\<close>

theorem nonaggregate_range_of_all_points:
  "map_sum id (\<lambda>res. (map (\<lambda>e. (obj_get e ''x'', obj_get e ''y'')) (series res), range' res))
     (getNonAggregatesData s2n_ex scatter_example) =
     Inr ([(Num (Fin 1), Num (Fin (1 / 5)))],
          \<lparr> xMin = Num (Fin 1), xMax = Num (Fin 2), yMin = Num (Fin 0), yMax = Num (Fin (1 / 5)) \<rparr>) \<and>
   map_sum id (\<lambda>res. (map (\<lambda>e. (obj_get e ''x'', obj_get e ''y'')) (series res), range' res))
     (getNonAggregatesData s2n_ex scatter_zero) =
     Inr ([(Num (Fin 0), Num (Fin 1)), (Num (Fin 5), Num (Fin 2))],
          \<lparr> xMin = Num (Fin 5), xMax = Num (Fin 5), yMin = Num (Fin 1), yMax = Num (Fin 2) \<rparr>)"
  by (simp add: scatter_example_result scatter_zero_result obj_get_eval)

section \<open>The stacked bar chart: accumulation\<close>




















































section \<open>The scatter plot: the aggregate mode\<close>



lemma step_inherited:
  "map_of acc (getFacetLabel (groups (metadata r))) = None \<Longrightarrow>
   inherited (getFacetLabel (groups (metadata r))) \<Longrightarrow>
   facetGroupData_step showOther names acc r = acc"
  by (simp add: facetGroupData_step_def Let_def)






















end
